theory Spec2Isabelle
  imports Main "HOL-Library.AList" "HOL-Library.Char_ord" "HOL-Library.List_Lexorder"
begin

section \<open>The authenticator of the scan plugin (internal/authentication/authenticator.go)\<close>

text \<open>
  The package caches a signed token per user name in a JSON file, validates the cached
  token against a key set, and negotiates a new token on the Hub when the cached one is
  not valid. The embedding follows authenticator.go function by function. What the code
  gets from outside (the JOSE library, the Hub client, the file system, the clock) is
  explicit: the parser and the signature check of the JOSE library and the two calls of
  the Hub client are function parameters, the tokens file is a state that the file
  operations read and return updated, and the clock is an argument.
\<close>

subsection \<open>Tokens, keys and claims (the types of go-jose that the code reads)\<close>

text \<open>\<^verbatim>\<open>jose.Header\<close>: the code reads only \<^verbatim>\<open>KeyID\<close>.\<close>

record Header =
  KeyID :: string
  Algorithm :: string

text \<open>
  \<^verbatim>\<open>jwt.JSONWebToken\<close>: the list of headers, and the compact text the token was parsed
  from, which stands for the payload and the signature that only the library reads.
\<close>

record JSONWebToken =
  Headers :: "Header list"
  compact :: string

text \<open>\<^verbatim>\<open>jose.JSONWebKey\<close>: a key identifier and the key material.\<close>

record JSONWebKey =
  KeyID :: string
  Key :: string

text \<open>\<^verbatim>\<open>jose.JSONWebKeySet\<close>.\<close>

record JSONWebKeySet =
  Keys :: "JSONWebKey list"

text \<open>
  \<^verbatim>\<open>jwt.Claims\<close>. The three dates are \<^verbatim>\<open>*NumericDate\<close>: absent (\<open>None\<close>) or a number of
  seconds since the epoch.
\<close>

record Claims =
  Issuer :: string
  Subject :: string
  Expiry :: "int option"
  NotBefore :: "int option"
  IssuedAt :: "int option"
  ID :: string

text \<open>
  The functions of the JOSE library whose results the code branches on:
  \<^verbatim>\<open>jwt.ParseSigned(token)\<close>, \<^verbatim>\<open>key.Public()\<close> and \<^verbatim>\<open>parsedToken.Claims(publicKey, &out)\<close>,
  which checks the signature under the key and decodes the claims. Each returns the
  library's error message (\<open>Inl\<close>) or its result (\<open>Inr\<close>). They are parameters of the
  model: every theorem below holds for every parser and every signature check.
\<close>

record jose =
  ParseSigned :: "string \<Rightarrow> string + JSONWebToken"
  Public :: "JSONWebKey \<Rightarrow> JSONWebKey"
  VerifyClaims :: "JSONWebToken \<Rightarrow> JSONWebKey \<Rightarrow> string + Claims"

subsection \<open>Time\<close>

text \<open>
  A \<^verbatim>\<open>time.Time\<close> is an integer number of nanoseconds since the epoch, a
  \<^verbatim>\<open>time.Duration\<close> an integer number of nanoseconds.
\<close>

type_synonym time = int

definition Second :: int where
  "Second = 1000000000"

definition Minute :: int where
  "Minute = 60 * Second"

text \<open>\<^verbatim>\<open>const expirationWindow = 1 * time.Minute\<close>\<close>

definition expirationWindow :: int where
  "expirationWindow = 1 * Minute"

text \<open>\<^verbatim>\<open>NumericDate.Time()\<close> is \<^verbatim>\<open>time.Unix(seconds, 0)\<close>.\<close>

definition NumericDate_Time :: "int \<Rightarrow> time" where
  "NumericDate_Time n = n * Second"

subsection \<open>Errors\<close>

text \<open>The three errors of \<^verbatim>\<open>Claims.ValidateWithLeeway\<close> that depend on the time.\<close>

datatype jwt_error = ErrNotValidYet | ErrExpired | ErrIssuedInTheFuture

text \<open>
  The errors of the operating system that the code tells apart: \<^verbatim>\<open>os.ErrNotExist\<close>
  (\<open>NotExist\<close>) and every other failure.
\<close>

datatype fault = Permission | IsDirectory | IOFailure | NoSpace | ReadOnlyFS

datatype oserror = NotExist | Fault fault

text \<open>The errors of \<^verbatim>\<open>encoding/json\<close>.\<close>

datatype json_error = SyntaxError | UnmarshalTypeError | MarshalError

text \<open>
  The errors the package returns, one constructor for each message it builds:
  \<^item> \<open>EmptyToken\<close>: \<^verbatim>\<open>"empty token"\<close>
  \<^item> \<open>InvalidToken\<close>: \<^verbatim>\<open>"invalid token: %s"\<close>, with the parser's error
  \<^item> \<open>KeyIdentifierMismatch\<close>: \<^verbatim>\<open>"invalid token: key identifier does not match"\<close>
  \<^item> \<open>SignatureMismatch\<close>: \<^verbatim>\<open>"invalid token: signature does not match the content: %s"\<close>
  \<^item> \<open>TokenExpired\<close>: \<^verbatim>\<open>"token has expired: %s"\<close>, with the validation error
  \<^item> \<open>CouldNotLogin\<close>: \<^verbatim>\<open>"could not login: %w"\<close>
  \<^item> \<open>CouldNotGetScanID\<close>: \<^verbatim>\<open>"could not get scan id: %w"\<close>
  \<^item> \<open>CouldNotNegotiate\<close>: \<^verbatim>\<open>"could not negotiate scan id token: %w"\<close>
  \<^item> \<open>CouldNotUpdate\<close>: \<^verbatim>\<open>"could not update local token: %w"\<close>
  \<^item> \<open>OSError\<close>: an error of \<^verbatim>\<open>os.Stat\<close>, \<^verbatim>\<open>ioutil.ReadFile\<close> or \<^verbatim>\<open>ioutil.WriteFile\<close>,
    returned as it is
  \<^item> \<open>JSONError\<close>: an error of \<^verbatim>\<open>json.Marshal\<close>, returned as it is.
\<close>

datatype error =
    EmptyToken
  | InvalidToken string
  | KeyIdentifierMismatch
  | SignatureMismatch string
  | TokenExpired jwt_error
  | CouldNotLogin string
  | CouldNotGetScanID string
  | CouldNotNegotiate error
  | CouldNotUpdate error
  | OSError oserror
  | JSONError json_error

subsection \<open>checkTokenValidity and findKey\<close>

text \<open>
  \<^verbatim>\<open>Claims.ValidateWithLeeway(e, leeway)\<close> of go-jose, as the code calls it: the expected
  value sets only \<^verbatim>\<open>Time\<close>, so the checks of issuer, subject, identifier and audience are
  skipped and the three checks of the dates remain, in the library's order:
  \<^verbatim>\<open>
  if c.NotBefore != nil && e.Time.Add(leeway).Before(c.NotBefore.Time()) { return ErrNotValidYet }
  if c.Expiry != nil && e.Time.Add(-leeway).After(c.Expiry.Time()) { return ErrExpired }
  if c.IssuedAt != nil && e.Time.Add(leeway).Before(c.IssuedAt.Time()) { return ErrIssuedInTheFuture }
  return nil
  \<close>
  \<open>None\<close> is the nil error.
\<close>

definition ValidateWithLeeway :: "Claims \<Rightarrow> time \<Rightarrow> int \<Rightarrow> jwt_error option" where
  "ValidateWithLeeway c t leeway =
     (if (case NotBefore c of None \<Rightarrow> False | Some nbf \<Rightarrow> t + leeway < NumericDate_Time nbf)
      then Some ErrNotValidYet
      else if (case Expiry c of None \<Rightarrow> False | Some exp \<Rightarrow> t - leeway > NumericDate_Time exp)
      then Some ErrExpired
      else if (case IssuedAt c of None \<Rightarrow> False | Some iat \<Rightarrow> t + leeway < NumericDate_Time iat)
      then Some ErrIssuedInTheFuture
      else None)"

text \<open>
  The first loop of \<^verbatim>\<open>findKey\<close>: \<^verbatim>\<open>kid\<close> starts empty and takes the \<^verbatim>\<open>KeyID\<close> of the first
  header whose \<^verbatim>\<open>KeyID\<close> is not empty, where the loop breaks.
\<close>

fun headerKid :: "Header list \<Rightarrow> string" where
  "headerKid [] = []"
| "headerKid (header # headers) =
     (if Header.KeyID header \<noteq> [] then Header.KeyID header else headerKid headers)"

text \<open>
  The second loop of \<^verbatim>\<open>findKey\<close>: the first key of the set whose \<^verbatim>\<open>KeyID\<close> equals \<^verbatim>\<open>kid\<close>
  is returned, as \<^verbatim>\<open>key.Public()\<close>; after the loop the error is returned.
\<close>

fun searchKeys :: "jose \<Rightarrow> JSONWebKey list \<Rightarrow> string \<Rightarrow> error + JSONWebKey" where
  "searchKeys lib [] kid = Inl KeyIdentifierMismatch"
| "searchKeys lib (key # keys) kid =
     (if JSONWebKey.KeyID key = kid then Inr (Public lib key) else searchKeys lib keys kid)"

definition findKey :: "jose \<Rightarrow> JSONWebKeySet \<Rightarrow> JSONWebToken \<Rightarrow> error + JSONWebKey" where
  "findKey lib jwks token =
     (let kid = headerKid (Headers token)
      in if kid = [] then Inl KeyIdentifierMismatch
         else searchKeys lib (Keys jwks) kid)"

text \<open>
  \<^verbatim>\<open>checkTokenValidity\<close>; \<open>now\<close> is the value of \<^verbatim>\<open>time.Now()\<close>, and \<open>None\<close> the nil error.
\<close>

definition checkTokenValidity :: "jose \<Rightarrow> JSONWebKeySet \<Rightarrow> time \<Rightarrow> string \<Rightarrow> error option" where
  "checkTokenValidity lib jwks now token =
     (if token = [] then Some EmptyToken
      else case ParseSigned lib token of
        Inl err \<Rightarrow> Some (InvalidToken err)
      | Inr parsedToken \<Rightarrow>
          (case findKey lib jwks parsedToken of
             Inl err \<Rightarrow> Some err
           | Inr publicKey \<Rightarrow>
               (case VerifyClaims lib parsedToken publicKey of
                  Inl err \<Rightarrow> Some (SignatureMismatch err)
                | Inr out \<Rightarrow>
                    (case ValidateWithLeeway out (now + expirationWindow) 0 of
                       Some err \<Rightarrow> Some (TokenExpired err)
                     | None \<Rightarrow> None))))"

subsection \<open>The tokens file: JSON documents, encoding/json, the file operations\<close>

text \<open>
  A JSON value as \<^verbatim>\<open>encoding/json\<close> reads it. An object keeps its members in the order of
  the text, duplicates included; a number keeps its literal.
\<close>

datatype json =
    JNull
  | JBool bool
  | JNumber string
  | JString string
  | JArray "json list"
  | JObject "(string \<times> json) list"

text \<open>
  A byte buffer (\<^verbatim>\<open>[]byte\<close>), seen as the decoder sees it: bytes that are not a JSON text
  (\<open>NotJSON\<close>; the nil and the empty buffer are such), or the text of a JSON value. Strings
  are texts (valid UTF-8), which the encoder writes and the decoder reads back unchanged.
\<close>

datatype buffer = NotJSON | Text json

text \<open>
  A \<^verbatim>\<open>map[string]string\<close> is an association list with one pair for each key; a variable of
  that type holds a map or nil (\<open>None\<close>).
\<close>

type_synonym gomap = "(string \<times> string) list"

text \<open>
  A function call of Go returns or panics. The only panic in this package is the runtime's
  \<^verbatim>\<open>assignment to entry in nil map\<close>.
\<close>

datatype 'a outcome = Returns 'a | Panics string

text \<open>\<^verbatim>\<open>tokens[key]\<close>: the empty string for a missing key and for a nil map.\<close>

definition mapindex :: "gomap option \<Rightarrow> string \<Rightarrow> string" where
  "mapindex tokens key =
     (case tokens of
        None \<Rightarrow> []
      | Some m \<Rightarrow> (case map_of m key of None \<Rightarrow> [] | Some v \<Rightarrow> v))"

text \<open>\<^verbatim>\<open>tokens[key] = value\<close>: panics on a nil map.\<close>

definition mapassign :: "gomap option \<Rightarrow> string \<Rightarrow> string \<Rightarrow> (gomap option) outcome" where
  "mapassign tokens key v =
     (case tokens of
        None \<Rightarrow> Panics ''assignment to entry in nil map''
      | Some m \<Rightarrow> Returns (Some (AList.update key v m)))"

text \<open>
  \<^verbatim>\<open>json.Unmarshal\<close> of one member's value into a map element of type string: a JSON string
  is stored; \<^verbatim>\<open>null\<close> leaves the zero value, the empty string, and is no error; any other
  value leaves the zero value and is a type error (\<open>True\<close>).
\<close>

fun decodeString :: "json \<Rightarrow> string \<times> bool" where
  "decodeString (JString s) = (s, False)"
| "decodeString JNull = ([], False)"
| "decodeString (JBool b) = ([], True)"
| "decodeString (JNumber n) = ([], True)"
| "decodeString (JArray vs) = ([], True)"
| "decodeString (JObject kvs) = ([], True)"

text \<open>
  \<^verbatim>\<open>json.Unmarshal\<close> of an object into a map: each member is decoded and stored under its
  key, in the order of the text; a member of the wrong type is recorded as an error and
  the decoding goes on with the next member ("Unmarshal skips that field and completes the
  unmarshaling as best it can"). The result is the map and whether an error was recorded.
\<close>

fun decodeObject :: "(string \<times> json) list \<Rightarrow> gomap \<Rightarrow> gomap \<times> bool" where
  "decodeObject [] m = (m, False)"
| "decodeObject ((key, v) # kvs) m =
     (case decodeString v of
        (s, bad) \<Rightarrow>
          (case decodeObject kvs (AList.update key s m) of
             (m', bad') \<Rightarrow> (m', bad \<or> bad')))"

text \<open>
  \<^verbatim>\<open>json.Unmarshal(buf, &tokens)\<close> where \<^verbatim>\<open>tokens\<close> holds the map \<open>m\<close>. The result is the
  value of \<^verbatim>\<open>tokens\<close> afterwards and the error:
  \<^item> bytes that are not JSON: a syntax error, found before anything is stored;
  \<^item> \<^verbatim>\<open>null\<close>: the map variable is set to nil, and there is no error;
  \<^item> an object: its members are stored into the existing map;
  \<^item> any other value: a type error, and nothing is stored.
\<close>

fun Unmarshal :: "buffer \<Rightarrow> gomap \<Rightarrow> gomap option \<times> json_error option" where
  "Unmarshal NotJSON m = (Some m, Some SyntaxError)"
| "Unmarshal (Text JNull) m = (None, None)"
| "Unmarshal (Text (JObject kvs)) m =
     (case decodeObject kvs m of
        (m', bad) \<Rightarrow> (Some m', if bad then Some UnmarshalTypeError else None))"
| "Unmarshal (Text (JBool b)) m = (Some m, Some UnmarshalTypeError)"
| "Unmarshal (Text (JNumber n)) m = (Some m, Some UnmarshalTypeError)"
| "Unmarshal (Text (JString s)) m = (Some m, Some UnmarshalTypeError)"
| "Unmarshal (Text (JArray vs)) m = (Some m, Some UnmarshalTypeError)"

text \<open>
  \<^verbatim>\<open>json.Marshal(tokens)\<close>: \<^verbatim>\<open>null\<close> for a nil map, otherwise an object with one string
  member for each key, the keys sorted. It has no error for a \<^verbatim>\<open>map[string]string\<close>.
\<close>

definition Marshal :: "gomap option \<Rightarrow> json_error + buffer" where
  "Marshal tokens =
     (case tokens of
        None \<Rightarrow> Inr (Text JNull)
      | Some m \<Rightarrow> Inr (Text (JObject (map (\<lambda>(k, v). (k, JString v)) (sort_key fst m)))))"

text \<open>
  The state of the path \<^verbatim>\<open>a.tokensPath\<close>: the file there, if any, with its content and its
  permission bits, and the failures that the environment imposes on the three system
  calls. A failure of \<^verbatim>\<open>os.Stat\<close> or \<^verbatim>\<open>ioutil.ReadFile\<close> other than the missing file is a
  \<open>fault\<close> (a directory without search permission, an unreadable file, a directory at the
  path). \<^verbatim>\<open>ioutil.WriteFile\<close> can fail when it opens the file (\<open>AtOpen\<close>: the directory is
  missing, the file is read-only) or when it writes (\<open>AtWrite\<close>: the file has been created
  or truncated by then, and what it holds is not a JSON text).
\<close>

datatype wfault = AtOpen oserror | AtWrite oserror

record fsys =
  tokensFile :: "(buffer \<times> nat) option"
  stat_fault :: "fault option"
  read_fault :: "fault option"
  write_fault :: "wfault option"

text \<open>\<^verbatim>\<open>os.Stat(path)\<close>: the error, or the mode of the file.\<close>

definition Stat :: "fsys \<Rightarrow> oserror + nat" where
  "Stat fs =
     (case stat_fault fs of
        Some f \<Rightarrow> Inl (Fault f)
      | None \<Rightarrow> (case tokensFile fs of None \<Rightarrow> Inl NotExist | Some (buf, mode) \<Rightarrow> Inr mode))"

text \<open>\<^verbatim>\<open>ioutil.ReadFile(path)\<close>: the buffer (nil when there is an error) and the error.\<close>

definition ReadFile :: "fsys \<Rightarrow> buffer \<times> oserror option" where
  "ReadFile fs =
     (case read_fault fs of
        Some f \<Rightarrow> (NotJSON, Some (Fault f))
      | None \<Rightarrow> (case tokensFile fs of None \<Rightarrow> (NotJSON, Some NotExist) | Some (buf, mode) \<Rightarrow> (buf, None)))"

text \<open>
  \<^verbatim>\<open>ioutil.WriteFile(path, buf, perm)\<close>: an existing file keeps its mode and gets the new
  content; a missing file is created with \<^verbatim>\<open>perm\<close>.
\<close>

definition WriteFile :: "fsys \<Rightarrow> buffer \<Rightarrow> nat \<Rightarrow> oserror option \<times> fsys" where
  "WriteFile fs buf perm =
     (let mode = (case tokensFile fs of None \<Rightarrow> perm | Some (old, m) \<Rightarrow> m)
      in case write_fault fs of
           Some (AtOpen e) \<Rightarrow> (Some e, fs)
         | Some (AtWrite e) \<Rightarrow> (Some e, fs\<lparr>tokensFile := Some (NotJSON, mode)\<rparr>)
         | None \<Rightarrow> (None, fs\<lparr>tokensFile := Some (buf, mode)\<rparr>))"

subsection \<open>getLocalToken and updateLocalToken\<close>

text \<open>\<^verbatim>\<open>types.AuthConfig\<close>: the code reads \<^verbatim>\<open>Username\<close> and hands the rest to the Hub client.\<close>

record AuthConfig =
  Username :: string
  Password :: string

definition getLocalToken :: "fsys \<Rightarrow> AuthConfig \<Rightarrow> string" where
  "getLocalToken fs hubAuthConfig =
     (case ReadFile fs of
        (buf, err) \<Rightarrow>
          if err = Some NotExist then []
          else (case Unmarshal buf [] of
                  (tokens, Some e) \<Rightarrow> []
                | (tokens, None) \<Rightarrow> mapindex tokens (Username hubAuthConfig)))"

text \<open>
  The rest of \<^verbatim>\<open>updateLocalToken\<close> after \<^verbatim>\<open>mode\<close> is known (from line 158 on). The result of
  \<^verbatim>\<open>json.Unmarshal\<close> is dropped (\<^verbatim>\<open>_ =\<close>), the map it leaves in \<^verbatim>\<open>tokens\<close> is used.
\<close>

definition writeLocalToken :: "fsys \<Rightarrow> AuthConfig \<Rightarrow> string \<Rightarrow> nat \<Rightarrow> (error option) outcome \<times> fsys" where
  "writeLocalToken fs hubAuthConfig token mode =
     (case ReadFile fs of
        (buf, Some (Fault f)) \<Rightarrow> (Returns (Some (OSError (Fault f))), fs)
      | (buf, err) \<Rightarrow>
          (case mapassign (fst (Unmarshal buf [])) (Username hubAuthConfig) token of
             Panics msg \<Rightarrow> (Panics msg, fs)
           | Returns tokens \<Rightarrow>
               (case Marshal tokens of
                  Inl e \<Rightarrow> (Returns (Some (JSONError e)), fs)
                | Inr out \<Rightarrow>
                    (case WriteFile fs out mode of
                       (werr, fs') \<Rightarrow> (Returns (map_option OSError werr), fs')))))"

text \<open>
  \<^verbatim>\<open>updateLocalToken\<close>: \<^verbatim>\<open>os.FileMode(0644)\<close> is 420. The result is what the call does
  (the error it returns, \<open>None\<close> for nil, or a panic) and the state of the file afterwards.
\<close>

definition updateLocalToken :: "fsys \<Rightarrow> AuthConfig \<Rightarrow> string \<Rightarrow> (error option) outcome \<times> fsys" where
  "updateLocalToken fs hubAuthConfig token =
     (case Stat fs of
        Inl err \<Rightarrow>
          if err \<noteq> NotExist then (Returns (Some (OSError err)), fs)
          else writeLocalToken fs hubAuthConfig token 420
      | Inr mode \<Rightarrow> writeLocalToken fs hubAuthConfig token mode)"

subsection \<open>negotiateScanIDToken and GetToken\<close>

text \<open>
  The two calls of the Hub client that the code makes, \<^verbatim>\<open>a.hub.Login(hubAuthConfig)\<close> and
  \<^verbatim>\<open>a.hub.GetScanID(hubToken)\<close>: each returns the client's error (\<open>Inl\<close>) or its result.
  They are parameters of the model.
\<close>

record hub =
  Login :: "AuthConfig \<Rightarrow> string + string"
  GetScanID :: "string \<Rightarrow> string + string"

text \<open>A call of the Hub client, as recorded in the order the code makes it.\<close>

datatype hubcall = LoginCall AuthConfig | GetScanIDCall string

text \<open>
  \<^verbatim>\<open>negotiateScanIDToken\<close>: the pair that the function returns (the token and the error,
  \<open>None\<close> for nil) and the calls of the Hub client that it made.
\<close>

definition negotiateScanIDToken :: "hub \<Rightarrow> AuthConfig \<Rightarrow> (string \<times> error option) \<times> hubcall list" where
  "negotiateScanIDToken h hubAuthConfig =
     (case Login h hubAuthConfig of
        Inl err \<Rightarrow> (([], Some (CouldNotLogin err)), [LoginCall hubAuthConfig])
      | Inr hubToken \<Rightarrow>
          (case GetScanID h hubToken of
             Inl err \<Rightarrow>
               (([], Some (CouldNotGetScanID err)),
                [LoginCall hubAuthConfig, GetScanIDCall hubToken])
           | Inr token \<Rightarrow>
               ((token, None), [LoginCall hubAuthConfig, GetScanIDCall hubToken])))"

text \<open>
  What a call of \<^verbatim>\<open>GetToken\<close> works on: the tokens file, and the calls of the Hub client
  made so far.
\<close>

record world =
  store :: fsys
  calls :: "hubcall list"

text \<open>
  \<^verbatim>\<open>GetToken\<close>, for an authenticator with the library \<open>lib\<close>, the Hub client \<open>h\<close> and the key
  set \<open>jwks\<close>, called at the time \<open>now\<close>. The result is what the call does (the pair of
  the token and the error that it returns, or a panic) and the world afterwards.
\<close>

definition GetToken ::
  "jose \<Rightarrow> hub \<Rightarrow> JSONWebKeySet \<Rightarrow> time \<Rightarrow> world \<Rightarrow> AuthConfig
     \<Rightarrow> (string \<times> error option) outcome \<times> world" where
  "GetToken lib h jwks now w hubAuthConfig =
     (let token = getLocalToken (store w) hubAuthConfig
      in if checkTokenValidity lib jwks now token = None then (Returns (token, None), w)
         else (case negotiateScanIDToken h hubAuthConfig of
                 ((fresh, Some err), made) \<Rightarrow>
                   (Returns ([], Some (CouldNotNegotiate err)), w\<lparr>calls := calls w @ made\<rparr>)
               | ((fresh, None), made) \<Rightarrow>
                   (case updateLocalToken (store w) hubAuthConfig fresh of
                      (Panics msg, fs') \<Rightarrow>
                        (Panics msg, \<lparr>store = fs', calls = calls w @ made\<rparr>)
                    | (Returns (Some err), fs') \<Rightarrow>
                        (Returns ([], Some (CouldNotUpdate err)),
                         \<lparr>store = fs', calls = calls w @ made\<rparr>)
                    | (Returns None, fs') \<Rightarrow>
                        (Returns (fresh, None), \<lparr>store = fs', calls = calls w @ made\<rparr>))))"

subsection \<open>Sample values\<close>

text \<open>
  A key set with one key, a library that parses every text into a token with the given
  headers and accepts the signature under the key of the Hub, a Hub client whose login
  accepts one password and whose second call gives the given answer, and states of the
  tokens file (mode 384 is 0600). The theorems are instantiated at these values.
\<close>

definition sampleKey :: JSONWebKey where
  "sampleKey = \<lparr>JSONWebKey.KeyID = ''hub-2020'', Key = ''public key of the hub''\<rparr>"

definition sampleKeySet :: JSONWebKeySet where
  "sampleKeySet = \<lparr>Keys = [sampleKey]\<rparr>"

definition sampleHeader :: "string \<Rightarrow> Header" where
  "sampleHeader kid = \<lparr>Header.KeyID = kid, Algorithm = ''RS256''\<rparr>"

definition sampleClaims :: "int option \<Rightarrow> int option \<Rightarrow> Claims" where
  "sampleClaims exp nbf =
     \<lparr>Issuer = ''hub'', Subject = ''alice'', Expiry = exp, NotBefore = nbf,
      IssuedAt = None, ID = ''1''\<rparr>"

definition sampleJose :: "Header list \<Rightarrow> Claims \<Rightarrow> jose" where
  "sampleJose hs c =
     \<lparr>ParseSigned = (\<lambda>s. Inr \<lparr>Headers = hs, compact = s\<rparr>),
      Public = (\<lambda>k. k),
      VerifyClaims = (\<lambda>t k. if Key k = ''public key of the hub'' then Inr c
                             else Inl ''verification failed'')\<rparr>"

definition sampleHub :: "string + string \<Rightarrow> hub" where
  "sampleHub scanID =
     \<lparr>Login = (\<lambda>c. if Password c = ''secret'' then Inr ''session'' else Inl ''unauthorized''),
      GetScanID = (\<lambda>t. scanID)\<rparr>"

definition sampleAuth :: "string \<Rightarrow> AuthConfig" where
  "sampleAuth user = \<lparr>Username = user, Password = ''secret''\<rparr>"

definition missingStore :: fsys where
  "missingStore =
     \<lparr>tokensFile = None, stat_fault = None, read_fault = None, write_fault = None\<rparr>"

definition sampleStore :: "buffer \<Rightarrow> fsys" where
  "sampleStore buf =
     \<lparr>tokensFile = Some (buf, 384), stat_fault = None, read_fault = None, write_fault = None\<rparr>"

section \<open>Properties\<close>

subsection \<open>The two searches of findKey\<close>

lemma find_nonempty_kid:
  "find (\<lambda>h. Header.KeyID h \<noteq> []) hs = Some h \<Longrightarrow> Header.KeyID h \<noteq> []"
  by (auto simp: find_Some_iff)

lemma headerKid_find:
  "headerKid hs =
     (case find (\<lambda>h. Header.KeyID h \<noteq> []) hs of None \<Rightarrow> [] | Some h \<Rightarrow> Header.KeyID h)"
  by (induction hs) auto

lemma searchKeys_find:
  "searchKeys lib ks kid =
     (case find (\<lambda>k. JSONWebKey.KeyID k = kid) ks of
        None \<Rightarrow> Inl KeyIdentifierMismatch
      | Some k \<Rightarrow> Inr (Public lib k))"
  by (induction ks) auto

lemma findKey_found:
  assumes "find (\<lambda>h. Header.KeyID h \<noteq> []) (Headers parsed) = Some h"
    and "find (\<lambda>k. JSONWebKey.KeyID k = Header.KeyID h) (Keys jwks) = Some key"
  shows "findKey lib jwks parsed = Inr (Public lib key)"
  using assms find_nonempty_kid[OF assms(1)]
  by (simp add: findKey_def headerKid_find searchKeys_find)

lemma findKey_missing:
  assumes "find (\<lambda>h. Header.KeyID h \<noteq> []) (Headers parsed) = None \<or>
     (\<exists>h. find (\<lambda>h. Header.KeyID h \<noteq> []) (Headers parsed) = Some h \<and>
          find (\<lambda>k. JSONWebKey.KeyID k = Header.KeyID h) (Keys jwks) = None)"
  shows "findKey lib jwks parsed = Inl KeyIdentifierMismatch"
  using assms
  by (auto simp: findKey_def Let_def headerKid_find searchKeys_find)

subsection \<open>Encoding a map and decoding it again\<close>

lemma decodeObject_strings:
  "decodeObject (map (\<lambda>(k, v). (k, JString v)) xs) m =
     (fold (\<lambda>(k, v). AList.update k v) xs m, False)"
  by (induction xs arbitrary: m) auto

lemma map_of_fold_update:
  "map_of (fold (\<lambda>(k, v). AList.update k v) xs m) = map_of m ++ map_of (rev xs)"
proof (induction xs arbitrary: m)
  case Nil
  then show ?case by simp
next
  case (Cons x xs)
  obtain k v where x: "x = (k, v)" by (cases x)
  show ?case
    by (auto simp: x Cons.IH update_conv' fun_eq_iff map_add_def split: option.splits)
qed

lemma map_of_rev_distinct:
  "distinct (map fst xs) \<Longrightarrow> map_of (rev xs) = map_of xs"
  by (rule map_of_inject_set [THEN iffD2]) (simp_all add: rev_map [symmetric])

lemma distinct_sort_key_fst:
  "distinct (map fst xs) \<Longrightarrow> distinct (map fst (sort_key fst xs))"
  by (induction xs) (auto simp: distinct_insort_key)

lemma map_of_sort_key:
  "distinct (map fst xs) \<Longrightarrow> map_of (sort_key fst xs) = map_of xs"
  by (simp add: map_of_inject_set distinct_sort_key_fst)

lemma distinct_decodeObject:
  "distinct (map fst m) \<Longrightarrow> distinct (map fst (fst (decodeObject kvs m)))"
  by (induction kvs m rule: decodeObject.induct) (auto simp: distinct_update split: prod.splits)

lemma Unmarshal_distinct:
  assumes "Unmarshal buf [] = (Some m, e)"
  shows "distinct (map fst m)"
proof (cases buf)
  case NotJSON
  with assms show ?thesis by auto
next
  case (Text v)
  show ?thesis
  proof (cases v)
    case (JObject kvs)
    have "distinct (map fst (fst (decodeObject kvs [])))"
      by (rule distinct_decodeObject) simp
    with assms Text JObject show ?thesis
      by (auto split: prod.splits)
  qed (use assms Text in auto)
qed

lemma Unmarshal_Marshal:
  assumes "distinct (map fst m)" and "Marshal (Some m) = Inr buf"
  shows "\<exists>m'. Unmarshal buf [] = (Some m', None) \<and> map_of m' = map_of m"
proof -
  have buf: "buf = Text (JObject (map (\<lambda>(k, v). (k, JString v)) (sort_key fst m)))"
    using assms(2) by (simp add: Marshal_def)
  have "map_of (fold (\<lambda>(k, v). AList.update k v) (sort_key fst m) []) = map_of m"
    using assms(1)
    by (simp add: map_of_fold_update map_of_rev_distinct map_of_sort_key distinct_sort_key_fst)
  then show ?thesis
    by (simp add: buf decodeObject_strings)
qed

subsection \<open>A successful updateLocalToken\<close>

lemma writeLocalToken_success:
  assumes "writeLocalToken fs cfg token perm = (Returns None, fs')"
  shows "\<exists>m. fst (Unmarshal (fst (ReadFile fs)) []) = Some m \<and>
           read_fault fs = None \<and>
           fs' = fs\<lparr>tokensFile := Some (Text (JObject (map (\<lambda>(k, v). (k, JString v))
                     (sort_key fst (AList.update (Username cfg) token m)))),
                     case tokensFile fs of None \<Rightarrow> perm | Some (old, md) \<Rightarrow> md)\<rparr>"
  using assms
  by (auto simp: writeLocalToken_def ReadFile_def mapassign_def Marshal_def WriteFile_def Let_def
      split: option.splits prod.splits oserror.splits outcome.splits sum.splits wfault.splits
        if_splits)

lemma updateLocalToken_success:
  assumes "updateLocalToken fs cfg token = (Returns None, fs')"
  shows "\<exists>m. fst (Unmarshal (fst (ReadFile fs)) []) = Some m \<and>
           read_fault fs = None \<and>
           fs' = fs\<lparr>tokensFile := Some (Text (JObject (map (\<lambda>(k, v). (k, JString v))
                     (sort_key fst (AList.update (Username cfg) token m)))),
                     case tokensFile fs of None \<Rightarrow> 420 | Some (old, md) \<Rightarrow> md)\<rparr>"
proof (cases "Stat fs")
  case (Inl err)
  with assms have w: "writeLocalToken fs cfg token 420 = (Returns None, fs')"
    by (simp add: updateLocalToken_def split: if_splits)
  show ?thesis using writeLocalToken_success [OF w] .
next
  case (Inr mode)
  with assms have w: "writeLocalToken fs cfg token mode = (Returns None, fs')"
    by (simp add: updateLocalToken_def)
  from Inr have "\<exists>buf. tokensFile fs = Some (buf, mode)"
    by (auto simp: Stat_def split: option.splits)
  then show ?thesis using writeLocalToken_success [OF w] by auto
qed

lemma load_after_save:
  assumes "updateLocalToken fs cfg token = (Returns None, fs')"
  shows "\<exists>m m'. fst (Unmarshal (fst (ReadFile fs)) []) = Some m \<and>
           Unmarshal (fst (ReadFile fs')) [] = (Some m', None) \<and>
           snd (ReadFile fs') = None \<and>
           map_of m' = (map_of m)(Username cfg \<mapsto> token)"
proof -
  from updateLocalToken_success [OF assms] obtain m where
    m: "fst (Unmarshal (fst (ReadFile fs)) []) = Some m" and
    rf: "read_fault fs = None" and
    fs': "fs' = fs\<lparr>tokensFile := Some (Text (JObject (map (\<lambda>(k, v). (k, JString v))
                     (sort_key fst (AList.update (Username cfg) token m)))),
                     case tokensFile fs of None \<Rightarrow> 420 | Some (old, md) \<Rightarrow> md)\<rparr>"
    by blast
  have "distinct (map fst m)"
    using m Unmarshal_distinct [of "fst (ReadFile fs)" m "snd (Unmarshal (fst (ReadFile fs)) [])"]
    by (simp add: prod_eq_iff)
  then have d: "distinct (map fst (AList.update (Username cfg) token m))"
    by (rule distinct_update)
  have "Marshal (Some (AList.update (Username cfg) token m)) =
          Inr (Text (JObject (map (\<lambda>(k, v). (k, JString v))
                     (sort_key fst (AList.update (Username cfg) token m)))))"
    by (simp add: Marshal_def)
  from Unmarshal_Marshal [OF d this] obtain m' where
    "Unmarshal (Text (JObject (map (\<lambda>(k, v). (k, JString v))
                     (sort_key fst (AList.update (Username cfg) token m))))) [] = (Some m', None)"
    and "map_of m' = map_of (AList.update (Username cfg) token m)"
    by blast
  then show ?thesis
    using m rf fs' by (auto simp: ReadFile_def update_conv')
qed

lemma getLocalToken_after_save:
  assumes "updateLocalToken fs cfg token = (Returns None, fs')"
  shows "getLocalToken fs' cfg = token"
proof -
  from load_after_save [OF assms] obtain m m' where
    "Unmarshal (fst (ReadFile fs')) [] = (Some m', None)"
    "snd (ReadFile fs') = None"
    "map_of m' = (map_of m)(Username cfg \<mapsto> token)"
    by blast
  then show ?thesis
    by (cases "ReadFile fs'") (simp add: getLocalToken_def mapindex_def)
qed

subsection \<open>A tokens file that holds null\<close>

text \<open>
  \<^verbatim>\<open>null\<close> decodes without error and leaves the map variable nil. \<open>getLocalToken\<close> reads
  the nil map and returns the empty string; \<open>updateLocalToken\<close> assigns to it, which
  panics before anything is written.
\<close>

lemma null_content_panics:
  assumes "tokensFile fs = Some (Text JNull, mode)"
    and "stat_fault fs = None" and "read_fault fs = None"
  shows "getLocalToken fs cfg = []"
    and "updateLocalToken fs cfg token = (Panics ''assignment to entry in nil map'', fs)"
  using assms
  by (simp_all add: getLocalToken_def mapindex_def updateLocalToken_def Stat_def
      writeLocalToken_def ReadFile_def mapassign_def)

subsection \<open>Validation of a token\<close>




text \<open>
  Claim C2, with the strict comparison that the code makes: for every token that is not
  empty, parses, names a key of the key set and verifies under it, if its expiry is
  strictly earlier than the current time plus the window of one minute,
  \<open>checkTokenValidity\<close> fails with the error "token has expired"; the error inside is the
  library's "expired", or its "not valid yet" when the not-before date fails first.
\<close>

theorem expired_token_rejected:
  assumes "token \<noteq> []"
    and "ParseSigned lib token = Inr parsed"
    and "find (\<lambda>h. Header.KeyID h \<noteq> []) (Headers parsed) = Some h"
    and "find (\<lambda>k. JSONWebKey.KeyID k = Header.KeyID h) (Keys jwks) = Some key"
    and "VerifyClaims lib parsed (Public lib key) = Inr c"
    and "Expiry c = Some exp"
    and "NumericDate_Time exp < now + expirationWindow"
  shows "checkTokenValidity lib jwks now token = Some (TokenExpired ErrExpired)
         \<or> checkTokenValidity lib jwks now token = Some (TokenExpired ErrNotValidYet)"
proof -
  have key: "findKey lib jwks parsed = Inr (Public lib key)"
    using assms(3,4) by (rule findKey_found)
  have "ValidateWithLeeway c (now + expirationWindow) 0 = Some ErrExpired
        \<or> ValidateWithLeeway c (now + expirationWindow) 0 = Some ErrNotValidYet"
    using assms(6,7) by (simp add: ValidateWithLeeway_def)
  then show ?thesis
    using assms(1,2,5) key by (auto simp: checkTokenValidity_def)
qed

text \<open>At the time 0, a token that expires at second 59 is rejected as expired.\<close>

theorem expired_token_rejected_witness:
  "checkTokenValidity (sampleJose [sampleHeader ''hub-2020''] (sampleClaims (Some 59) None))
     sampleKeySet 0 ''a.b.c'' = Some (TokenExpired ErrExpired)"
  using expired_token_rejected [of "''a.b.c''"
      "sampleJose [sampleHeader ''hub-2020''] (sampleClaims (Some 59) None)"
      "\<lparr>Headers = [sampleHeader ''hub-2020''], compact = ''a.b.c''\<rparr>"
      "sampleHeader ''hub-2020''" sampleKeySet sampleKey
      "sampleClaims (Some 59) None" 59 0]
  by (simp add: sampleJose_def sampleHeader_def sampleKeySet_def sampleKey_def sampleClaims_def
      expirationWindow_def Minute_def Second_def NumericDate_Time_def
      checkTokenValidity_def findKey_def ValidateWithLeeway_def)

text \<open>
  At equality the token is accepted: at the time 0, a token that parses, names the key of
  the key set, verifies under it and expires at second 60, which is exactly the current
  time plus the window, passes \<open>checkTokenValidity\<close>.
\<close>

theorem expiry_at_window_counterexample:
  "ParseSigned (sampleJose [sampleHeader ''hub-2020''] (sampleClaims (Some 60) None)) ''a.b.c''
     = Inr \<lparr>Headers = [sampleHeader ''hub-2020''], compact = ''a.b.c''\<rparr>
   \<and> findKey (sampleJose [sampleHeader ''hub-2020''] (sampleClaims (Some 60) None)) sampleKeySet
        \<lparr>Headers = [sampleHeader ''hub-2020''], compact = ''a.b.c''\<rparr> = Inr sampleKey
   \<and> VerifyClaims (sampleJose [sampleHeader ''hub-2020''] (sampleClaims (Some 60) None))
        \<lparr>Headers = [sampleHeader ''hub-2020''], compact = ''a.b.c''\<rparr> sampleKey
        = Inr (sampleClaims (Some 60) None)
   \<and> Expiry (sampleClaims (Some 60) None) = Some 60
   \<and> NumericDate_Time 60 = 0 + expirationWindow
   \<and> checkTokenValidity (sampleJose [sampleHeader ''hub-2020''] (sampleClaims (Some 60) None))
        sampleKeySet 0 ''a.b.c'' = None"
  by (simp add: sampleJose_def sampleHeader_def sampleKeySet_def sampleKey_def sampleClaims_def
      expirationWindow_def Minute_def Second_def NumericDate_Time_def
      checkTokenValidity_def findKey_def ValidateWithLeeway_def)

text \<open>
  Claim C4: for every token that is not empty and parses, only the first header with a
  key identifier that is not empty counts. If there is no such header, or no key of the
  key set (searched from its first key on) has the identifier of that header,
  \<open>checkTokenValidity\<close> fails with "key identifier does not match", whatever the
  signature check would answer: the result is the same for every function \<open>verify\<close> in
  the place of the library's signature check.
\<close>

theorem unknown_key_rejected:
  assumes "token \<noteq> []"
    and "ParseSigned lib token = Inr parsed"
    and "find (\<lambda>h. Header.KeyID h \<noteq> []) (Headers parsed) = None \<or>
         (\<exists>h. find (\<lambda>h. Header.KeyID h \<noteq> []) (Headers parsed) = Some h \<and>
              find (\<lambda>k. JSONWebKey.KeyID k = Header.KeyID h) (Keys jwks) = None)"
  shows "checkTokenValidity (lib\<lparr>VerifyClaims := verify\<rparr>) jwks now token
           = Some KeyIdentifierMismatch"
proof -
  have "findKey (lib\<lparr>VerifyClaims := verify\<rparr>) jwks parsed = Inl KeyIdentifierMismatch"
    using assms(3) by (rule findKey_missing)
  then show ?thesis
    using assms(1,2) by (simp add: checkTokenValidity_def)
qed

text \<open>
  A token with three headers, the first without a key identifier, the second naming an
  unknown key and the third naming the key of the key set, is rejected, although the
  signature check accepts it under that key.
\<close>

theorem unknown_key_rejected_witness:
  "checkTokenValidity
     ((sampleJose [sampleHeader [], sampleHeader ''other'', sampleHeader ''hub-2020'']
         (sampleClaims (Some 2000) None))
      \<lparr>VerifyClaims := VerifyClaims (sampleJose [] (sampleClaims (Some 2000) None))\<rparr>)
     sampleKeySet 0 ''a.b.c'' = Some KeyIdentifierMismatch"
  using unknown_key_rejected [of "''a.b.c''"
      "sampleJose [sampleHeader [], sampleHeader ''other'', sampleHeader ''hub-2020'']
         (sampleClaims (Some 2000) None)"
      "\<lparr>Headers = [sampleHeader [], sampleHeader ''other'', sampleHeader ''hub-2020''],
        compact = ''a.b.c''\<rparr>"
      sampleKeySet "VerifyClaims (sampleJose [] (sampleClaims (Some 2000) None))" 0]
  by (simp add: sampleJose_def sampleHeader_def sampleKeySet_def sampleKey_def)

subsection \<open>The tokens file\<close>

text \<open>
  Claim C5: for every user name, \<open>getLocalToken\<close> returns the empty string when the
  tokens file is missing and when the file is there but its content does not decode
  without error into a map from strings to strings. The function has no error result.
\<close>

theorem unreadable_cache_loads_empty:
  assumes "tokensFile fs = None \<or>
           (\<exists>buf mode. tokensFile fs = Some (buf, mode) \<and> snd (Unmarshal buf []) \<noteq> None)"
  shows "getLocalToken fs hubAuthConfig = []"
  using assms
  by (auto simp: getLocalToken_def ReadFile_def split: option.splits prod.splits)

text \<open>
  A missing file, a file that is not JSON, and an object where one member is a number.
\<close>

theorem unreadable_cache_loads_empty_witness:
  "getLocalToken missingStore (sampleAuth ''alice'') = []
   \<and> getLocalToken (sampleStore NotJSON) (sampleAuth ''alice'') = []
   \<and> getLocalToken
        (sampleStore (Text (JObject [(''alice'', JString ''a.a.a''), (''bob'', JNumber ''5'')])))
        (sampleAuth ''alice'') = []"
  using unreadable_cache_loads_empty [of missingStore "sampleAuth ''alice''"]
    unreadable_cache_loads_empty [of "sampleStore NotJSON" "sampleAuth ''alice''"]
    unreadable_cache_loads_empty
      [of "sampleStore (Text (JObject [(''alice'', JString ''a.a.a''), (''bob'', JNumber ''5'')]))"
        "sampleAuth ''alice''"]
  by (simp add: missingStore_def sampleStore_def)




text \<open>
  Claim C8: when the tokens file holds a JSON object that decodes without error into the
  map \<open>m\<close>, and \<open>updateLocalToken\<close> for one user name returns nil, the file afterwards
  holds a JSON object, with the mode the file had, that decodes without error into \<open>m\<close>
  with the given user name set to the given token: every other user name has the entry
  it had, or none as before.
\<close>

theorem other_entries_preserved:
  assumes "tokensFile fs = Some (Text (JObject kvs), mode)"
    and "Unmarshal (Text (JObject kvs)) [] = (Some m, None)"
    and "updateLocalToken fs hubAuthConfig token = (Returns None, fs')"
  shows "\<exists>kvs' m'. tokensFile fs' = Some (Text (JObject kvs'), mode)
           \<and> Unmarshal (Text (JObject kvs')) [] = (Some m', None)
           \<and> map_of m' = (map_of m)(Username hubAuthConfig \<mapsto> token)"
proof -
  from updateLocalToken_success [OF assms(3)] have rf: "read_fault fs = None"
    and "\<exists>kvs'. tokensFile fs' = Some (Text (JObject kvs'), mode)"
    using assms(1) by auto
  then obtain kvs' where k: "tokensFile fs' = Some (Text (JObject kvs'), mode)" by blast
  have r: "fst (ReadFile fs) = Text (JObject kvs)"
    using rf assms(1) by (simp add: ReadFile_def)
  from load_after_save [OF assms(3)] obtain m0 m' where
    "fst (Unmarshal (fst (ReadFile fs)) []) = Some m0"
    "Unmarshal (fst (ReadFile fs')) [] = (Some m', None)"
    "snd (ReadFile fs') = None"
    "map_of m' = (map_of m0)(Username hubAuthConfig \<mapsto> token)"
    by blast
  moreover have "fst (ReadFile fs') = Text (JObject kvs')"
    using k \<open>snd (ReadFile fs') = None\<close> by (auto simp: ReadFile_def split: option.splits)
  ultimately show ?thesis
    using k r assms(2) by auto
qed

text \<open>
  A file with the entries of bob and alice, updated for carol: the file afterwards has
  the three entries, those of bob and alice as they were.
\<close>

theorem other_entries_preserved_witness:
  "\<exists>kvs' m'.
     tokensFile (sampleStore (Text (JObject
        [(''alice'', JString ''a.a.a''), (''bob'', JString ''b.b.b''),
         (''carol'', JString ''c.c.c'')])))
       = Some (Text (JObject kvs'), 384)
     \<and> Unmarshal (Text (JObject kvs')) [] = (Some m', None)
     \<and> map_of m' = (map_of [(''bob'', ''b.b.b''), (''alice'', ''a.a.a'')])
                      (Username (sampleAuth ''carol'') \<mapsto> ''c.c.c'')"
proof (rule other_entries_preserved)
  show "tokensFile (sampleStore (Text (JObject
            [(''bob'', JString ''b.b.b''), (''alice'', JString ''a.a.a'')])))
          = Some (Text (JObject [(''bob'', JString ''b.b.b''), (''alice'', JString ''a.a.a'')]), 384)"
    by (simp add: sampleStore_def)
  show "Unmarshal (Text (JObject [(''bob'', JString ''b.b.b''), (''alice'', JString ''a.a.a'')])) []
          = (Some [(''bob'', ''b.b.b''), (''alice'', ''a.a.a'')], None)"
    by simp
  show "updateLocalToken
          (sampleStore (Text (JObject
             [(''bob'', JString ''b.b.b''), (''alice'', JString ''a.a.a'')])))
          (sampleAuth ''carol'') ''c.c.c''
        = (Returns None, sampleStore (Text (JObject
             [(''alice'', JString ''a.a.a''), (''bob'', JString ''b.b.b''),
              (''carol'', JString ''c.c.c'')])))"
    by (simp add: updateLocalToken_def Stat_def writeLocalToken_def ReadFile_def mapassign_def
        Marshal_def WriteFile_def sampleStore_def sampleAuth_def)
qed






subsection \<open>GetToken\<close>

text \<open>
  Claim C3: \<open>GetToken\<close> loads the cached token of the user name and validates it.
  \<^item> When the validation returns nil, it returns the cached token; the file and the list of
    calls of the Hub client are as before.
  \<^item> When the validation fails, whatever the error, and the login, the exchange and the
    update of the file succeed, it returns the fresh token; the Hub client has been
    called twice more, \<^verbatim>\<open>Login\<close> and then \<^verbatim>\<open>GetScanID\<close>, and the file is the one that
    \<open>updateLocalToken\<close> left, where the user name has the fresh token.
  \<^item> When the login fails, the error is returned after that one call; when the exchange
    fails, after one call of each: nothing is tried again.
  \<^item> Whatever the update of the file does, the calls are one \<^verbatim>\<open>Login\<close> and one
    \<^verbatim>\<open>GetScanID\<close>, and the file is the one that the single \<open>updateLocalToken\<close> left.
\<close>

theorem GetToken_flow:
  "(checkTokenValidity lib jwks now (getLocalToken (store w) hubAuthConfig) = None \<longrightarrow>
      GetToken lib h jwks now w hubAuthConfig
        = (Returns (getLocalToken (store w) hubAuthConfig, None), w))
   \<and> (checkTokenValidity lib jwks now (getLocalToken (store w) hubAuthConfig) \<noteq> None \<and>
       Login h hubAuthConfig = Inr hubToken \<and> GetScanID h hubToken = Inr fresh \<and>
       updateLocalToken (store w) hubAuthConfig fresh = (Returns None, fs') \<longrightarrow>
      GetToken lib h jwks now w hubAuthConfig
        = (Returns (fresh, None),
           \<lparr>store = fs', calls = calls w @ [LoginCall hubAuthConfig, GetScanIDCall hubToken]\<rparr>)
      \<and> getLocalToken fs' hubAuthConfig = fresh)
   \<and> (checkTokenValidity lib jwks now (getLocalToken (store w) hubAuthConfig) \<noteq> None \<and>
       Login h hubAuthConfig = Inl e \<longrightarrow>
      GetToken lib h jwks now w hubAuthConfig
        = (Returns ([], Some (CouldNotNegotiate (CouldNotLogin e))),
           w\<lparr>calls := calls w @ [LoginCall hubAuthConfig]\<rparr>))
   \<and> (checkTokenValidity lib jwks now (getLocalToken (store w) hubAuthConfig) \<noteq> None \<and>
       Login h hubAuthConfig = Inr hubToken \<and> GetScanID h hubToken = Inl e \<longrightarrow>
      GetToken lib h jwks now w hubAuthConfig
        = (Returns ([], Some (CouldNotNegotiate (CouldNotGetScanID e))),
           w\<lparr>calls := calls w @ [LoginCall hubAuthConfig, GetScanIDCall hubToken]\<rparr>))
   \<and> (checkTokenValidity lib jwks now (getLocalToken (store w) hubAuthConfig) \<noteq> None \<and>
       Login h hubAuthConfig = Inr hubToken \<and> GetScanID h hubToken = Inr fresh \<longrightarrow>
      snd (GetToken lib h jwks now w hubAuthConfig)
        = \<lparr>store = snd (updateLocalToken (store w) hubAuthConfig fresh),
           calls = calls w @ [LoginCall hubAuthConfig, GetScanIDCall hubToken]\<rparr>)"
proof -
  have "getLocalToken fs' hubAuthConfig = fresh"
    if "updateLocalToken (store w) hubAuthConfig fresh = (Returns None, fs')"
    using that by (rule getLocalToken_after_save)
  then show ?thesis
    by (auto simp: GetToken_def negotiateScanIDToken_def Let_def
        split: prod.splits outcome.splits option.splits)
qed

text \<open>
  With a tokens file that is not JSON, \<open>GetToken\<close> for bob logs in, gets the scan
  identifier and writes it to the file; called again on the world it left, it returns the
  cached token and calls nothing. When the Hub refuses the exchange, the error is
  returned after one call of each.
\<close>

theorem GetToken_flow_witness:
  "GetToken (sampleJose [sampleHeader ''hub-2020''] (sampleClaims (Some 2000) None))
     (sampleHub (Inr ''fresh.scan.id'')) sampleKeySet 0
     \<lparr>store = sampleStore NotJSON, calls = []\<rparr> (sampleAuth ''bob'')
     = (Returns (''fresh.scan.id'', None),
        \<lparr>store = sampleStore (Text (JObject [(''bob'', JString ''fresh.scan.id'')])),
         calls = [LoginCall (sampleAuth ''bob''), GetScanIDCall ''session'']\<rparr>)
   \<and> GetToken (sampleJose [sampleHeader ''hub-2020''] (sampleClaims (Some 2000) None))
     (sampleHub (Inr ''fresh.scan.id'')) sampleKeySet 0
     \<lparr>store = sampleStore (Text (JObject [(''bob'', JString ''fresh.scan.id'')])),
      calls = [LoginCall (sampleAuth ''bob''), GetScanIDCall ''session'']\<rparr> (sampleAuth ''bob'')
     = (Returns (''fresh.scan.id'', None),
        \<lparr>store = sampleStore (Text (JObject [(''bob'', JString ''fresh.scan.id'')])),
         calls = [LoginCall (sampleAuth ''bob''), GetScanIDCall ''session'']\<rparr>)
   \<and> GetToken (sampleJose [sampleHeader ''hub-2020''] (sampleClaims (Some 2000) None))
     (sampleHub (Inl ''service unavailable'')) sampleKeySet 0
     \<lparr>store = sampleStore NotJSON, calls = []\<rparr> (sampleAuth ''bob'')
     = (Returns ([], Some (CouldNotNegotiate (CouldNotGetScanID ''service unavailable''))),
        \<lparr>store = sampleStore NotJSON,
         calls = [LoginCall (sampleAuth ''bob''), GetScanIDCall ''session'']\<rparr>)"
  using
    GetToken_flow [of "sampleJose [sampleHeader ''hub-2020''] (sampleClaims (Some 2000) None)"
      sampleKeySet 0 "\<lparr>store = sampleStore NotJSON, calls = []\<rparr>" "sampleAuth ''bob''"
      "sampleHub (Inr ''fresh.scan.id'')" "''session''" "''fresh.scan.id''"
      "sampleStore (Text (JObject [(''bob'', JString ''fresh.scan.id'')]))" e]
    GetToken_flow [of "sampleJose [sampleHeader ''hub-2020''] (sampleClaims (Some 2000) None)"
      sampleKeySet 0
      "\<lparr>store = sampleStore (Text (JObject [(''bob'', JString ''fresh.scan.id'')])),
        calls = [LoginCall (sampleAuth ''bob''), GetScanIDCall ''session'']\<rparr>" "sampleAuth ''bob''"
      "sampleHub (Inr ''fresh.scan.id'')" "''session''" "''fresh.scan.id''" fs' e]
    GetToken_flow [of "sampleJose [sampleHeader ''hub-2020''] (sampleClaims (Some 2000) None)"
      sampleKeySet 0 "\<lparr>store = sampleStore NotJSON, calls = []\<rparr>" "sampleAuth ''bob''"
      "sampleHub (Inl ''service unavailable'')" "''session''" fresh fs' "''service unavailable''"]
  by (simp add: sampleJose_def sampleHeader_def sampleKeySet_def sampleKey_def sampleClaims_def
      sampleHub_def sampleAuth_def sampleStore_def
      expirationWindow_def Minute_def Second_def NumericDate_Time_def
      checkTokenValidity_def findKey_def ValidateWithLeeway_def
      updateLocalToken_def Stat_def writeLocalToken_def ReadFile_def mapassign_def
      Marshal_def WriteFile_def getLocalToken_def mapindex_def)

text \<open>
  Claim C6: when the cached token is not valid, the login and the exchange succeed and
  \<open>updateLocalToken\<close> returns an error, \<open>GetToken\<close> returns the empty string and the
  error "could not update local token" around that error; the fresh token is not
  returned.
\<close>

theorem persist_failure_discards_token:
  assumes "checkTokenValidity lib jwks now (getLocalToken (store w) hubAuthConfig) \<noteq> None"
    and "Login h hubAuthConfig = Inr hubToken"
    and "GetScanID h hubToken = Inr fresh"
    and "fst (updateLocalToken (store w) hubAuthConfig fresh) = Returns (Some err)"
  shows "fst (GetToken lib h jwks now w hubAuthConfig) = Returns ([], Some (CouldNotUpdate err))"
  using assms
  by (cases "updateLocalToken (store w) hubAuthConfig fresh")
     (auto simp: GetToken_def negotiateScanIDToken_def Let_def)

text \<open>
  No tokens file and no directory for it: the write fails, and \<open>GetToken\<close> returns the
  empty string with the error.
\<close>

theorem persist_failure_discards_token_witness:
  "fst (GetToken (sampleJose [sampleHeader ''hub-2020''] (sampleClaims (Some 2000) None))
         (sampleHub (Inr ''fresh.scan.id'')) sampleKeySet 0
         \<lparr>store = missingStore\<lparr>write_fault := Some (AtOpen NotExist)\<rparr>, calls = []\<rparr>
         (sampleAuth ''bob''))
     = Returns ([], Some (CouldNotUpdate (OSError NotExist)))"
  by (rule persist_failure_discards_token
        [where hubToken = "''session''" and fresh = "''fresh.scan.id''"])
     (simp_all add: sampleHub_def sampleAuth_def missingStore_def getLocalToken_def ReadFile_def
        checkTokenValidity_def updateLocalToken_def Stat_def writeLocalToken_def mapassign_def
        Marshal_def WriteFile_def)

end
